theory Spec2Isabelle
  imports Complex_Main "HOL-Library.AList"
begin

section \<open>HealthPass: field-level signed credentials on a ledger\<close>

text \<open>
  A shallow embedding of \<^verbatim>\<open>HealthPass.py\<close>. The Python class talks to three
  third-party libraries (\<^verbatim>\<open>eth_account\<close>, \<^verbatim>\<open>web3\<close>, \<^verbatim>\<open>json\<close>); their functions
  are parameters of the model, bundled in records, and every call that can raise returns
  a sum whose left injection is the exception. Dictionaries are association lists in
  insertion order, as Python's \<^verbatim>\<open>dict\<close> iterates; printed lines and submitted
  transactions are returned as values.
\<close>

subsection \<open>Exceptions and values\<close>

text \<open>
  The exceptions the script can meet. \<^verbatim>\<open>KeyboardInterrupt\<close> and \<^verbatim>\<open>SystemExit\<close> derive
  from \<^verbatim>\<open>BaseException\<close> only; the others are subclasses of \<^verbatim>\<open>Exception\<close>.
\<close>

datatype exn =
    NameError string
  | KeyError string
  | TypeError string
  | ValueError string
  | LedgerError string
  | KeyboardInterrupt
  | SystemExit

fun is_Exception :: "exn \<Rightarrow> bool" where
  "is_Exception KeyboardInterrupt = False"
| "is_Exception SystemExit = False"
| "is_Exception _ = True"

text \<open>Python values as the ledger's view functions and \<^verbatim>\<open>json.loads\<close> return them.\<close>

datatype pyval =
    PNone
  | PBool bool
  | PInt int
  | PStr string
  | PList "pyval list"
  | PDict "(string \<times> pyval) list"

record account =
  address :: string
  privateKey :: string

subsection \<open>The signing library\<close>

text \<open>
  \<^verbatim>\<open>encode_defunct(text=...)\<close> builds the EIP-191 message of type \<open>'m\<close>;
  \<open>sign_message_hex m key\<close> stands for
  \<^verbatim>\<open>web3.eth.account.sign_message(m, private_key=key).signature.hex()\<close>;
  \<open>recover_message m sg\<close> for \<^verbatim>\<open>web3.eth.account.recover_message(m, signature=sg)\<close>.
\<close>

record 'm eth_account =
  encode_defunct :: "string \<Rightarrow> 'm"
  sign_message_hex :: "'m \<Rightarrow> string \<Rightarrow> exn + string"
  recover_message :: "'m \<Rightarrow> string \<Rightarrow> exn + string"

definition sign_data :: "'m eth_account \<Rightarrow> string \<Rightarrow> account \<Rightarrow> exn + string" where
  "sign_data lib data signing_account =
     (let message = encode_defunct lib data
      in sign_message_hex lib message (privateKey signing_account))"

definition validate_signature ::
  "'m eth_account \<Rightarrow> string \<Rightarrow> string \<Rightarrow> string \<Rightarrow> exn + bool" where
  "validate_signature lib data signature signer_address =
     (let message = encode_defunct lib data
      in case recover_message lib message signature of
           Inl e \<Rightarrow> Inl e
         | Inr addr \<Rightarrow> if signer_address = addr then Inr True else Inr False)"

subsection \<open>Validating a dictionary of signatures\<close>

definition warning :: "string \<Rightarrow> string" where
  "warning key =
     ''WARNING!!!  User plain text health data for '' @ key @ '' does not match signature!''"

text \<open>
  The loop over \<^verbatim>\<open>signature_dict.items()\<close>. The result is the list of printed lines
  and what the call returns or raises; \<^verbatim>\<open>plaintext_dict[key]\<close> raises \<^verbatim>\<open>KeyError\<close>
  on a missing key.
\<close>

fun validate_data_dict ::
  "'m eth_account \<Rightarrow> (string \<times> string) list \<Rightarrow> (string \<times> string) list \<Rightarrow> string
     \<Rightarrow> string list \<times> (exn + bool)" where
  "validate_data_dict lib plaintext_dict [] signer_address = ([], Inr True)"
| "validate_data_dict lib plaintext_dict ((key, data_signature) # rest) signer_address =
     (case map_of plaintext_dict key of
        None \<Rightarrow> ([], Inl (KeyError key))
      | Some data \<Rightarrow>
          (case validate_signature lib data data_signature signer_address of
             Inl e \<Rightarrow> ([], Inl e)
           | Inr is_valid \<Rightarrow>
               if \<not> is_valid then ([warning key], Inr False)
               else validate_data_dict lib plaintext_dict rest signer_address))"

text \<open>A field of the signed map verifies: its key is in the plaintext map and the
  signature check returns \<open>True\<close>.\<close>

definition field_verifies ::
  "'m eth_account \<Rightarrow> (string \<times> string) list \<Rightarrow> string \<Rightarrow> string \<times> string \<Rightarrow> bool" where
  "field_verifies lib plaintext_dict signer_address field =
     (case map_of plaintext_dict (fst field) of
        None \<Rightarrow> False
      | Some data \<Rightarrow> validate_signature lib data (snd field) signer_address = Inr True)"

subsection \<open>A symbolic signing library\<close>

text \<open>
  An instance of the library interface on which the model can be run: the signature of a
  message is the signer, a slash and the message; an account's address is its key.
  Recovery with the signed message returns the signer, with any other message some other
  address, and it raises on a string that is not a signature (one without a slash), as
  \<^verbatim>\<open>recover_message\<close> raises on a signature of the wrong length or format.
\<close>

definition sym_recover :: "string \<Rightarrow> string \<Rightarrow> exn + string" where
  "sym_recover m sg =
     (if CHR ''/'' \<notin> set sg then Inl (ValueError ''malformed signature'')
      else let signer = takeWhile (\<lambda>c. c \<noteq> CHR ''/'') sg;
               signed = tl (dropWhile (\<lambda>c. c \<noteq> CHR ''/'') sg)
           in Inr (if signed = m then signer else ''?'' @ signer))"

definition symbolic :: "string eth_account" where
  "symbolic =
     \<lparr> encode_defunct = (\<lambda>text. text),
       sign_message_hex = (\<lambda>m key. Inr (key @ ''/'' @ m)),
       recover_message = sym_recover \<rparr>"


subsection \<open>Creating passports and credentials\<close>

text \<open>
  The dictionary comprehension \<^verbatim>\<open>{k: self.sign_data(v, issuer_account) for k, v in
  d.items()}\<close>: the fields are signed in order and the first exception ends it.
\<close>

fun sign_all ::
  "'m eth_account \<Rightarrow> (string \<times> string) list \<Rightarrow> account \<Rightarrow> exn + (string \<times> string) list" where
  "sign_all lib [] issuer_account = Inr []"
| "sign_all lib ((k, v) # rest) issuer_account =
     (case sign_data lib v issuer_account of
        Inl e \<Rightarrow> Inl e
      | Inr sg \<Rightarrow>
          (case sign_all lib rest issuer_account of
             Inl e \<Rightarrow> Inl e
           | Inr hashed \<Rightarrow> Inr ((k, sg) # hashed)))"

text \<open>
  Every name that a statement at module level binds (imports, the class, the two
  functions, the configuration constants and the variables of the script). A name that a
  function body reads and that is neither its parameter nor its local variable is looked
  up here when the body runs, and the lookup raises \<^verbatim>\<open>NameError\<close> if the module
  does not bind it (none of these names is a builtin).
\<close>

definition module_globals :: "string list" where
  "module_globals =
     [''json'', ''pprint'', ''os'', ''time'', ''binascii'', ''Web3'',
      ''construct_sign_and_send_raw_middleware'', ''Account'', ''encode_defunct'',
      ''fast_gas_price_strategy'', ''medium_gas_price_strategy'', ''slow_gas_price_strategy'',
      ''HealthPass'', ''initialize_account'', ''create_new_account'',
      ''INFURA_PROJECT_ID'', ''CONTRACT_OWNER_PRIVATE_KEY'', ''CONTRACT_ADDRESS'',
      ''ISSUER_PRIVATE_KEY'', ''PASSPORT_PRIVATE_KEY'', ''INFURA_API_URL'', ''ETHERSCAN_URL'',
      ''CONTRACT_FILEPATH'', ''ABI_FILEPATH'', ''BYTECODE_FILEPATH'', ''FORCE_COMPILE'',
      ''GAS_PRICE_STRATEGY'', ''health_pass'', ''contract_owner_account'',
      ''contract_owner_balance'', ''issuer_account'', ''recover_eth'', ''passport_account'',
      ''health_data'', ''credential_data'', ''passport_dict'', ''credential_dict'',
      ''passport_valid'', ''credential_valid'', ''e'']"

definition load_global :: "(string \<Rightarrow> pyval) \<Rightarrow> string \<Rightarrow> exn + pyval" where
  "load_global globals name =
     (if name \<in> set module_globals then Inr (globals name) else Inl (NameError name))"

text \<open>The write calls of the contract, with their arguments.\<close>

datatype ledger_call =
    AuthorizeIssuer string string
  | CreateHealthPassport string string pyval
  | CreateCredential string string string

text \<open>
  \<open>create_health_passport\<close> has the parameters \<^verbatim>\<open>health_dict\<close>,
  \<^verbatim>\<open>issuer_account\<close> and \<^verbatim>\<open>passport_account\<close>; the third argument of the write,
  \<^verbatim>\<open>allow_only_signed\<close>, is a name the body only reads. The result is the write that
  \<^verbatim>\<open>.transact()\<close> submits (waiting for the receipt and printing its cost follow);
  \<open>json_dumps\<close> is \<^verbatim>\<open>json.dumps\<close>.
\<close>

definition create_health_passport ::
  "'m eth_account \<Rightarrow> ((string \<times> string) list \<Rightarrow> string) \<Rightarrow> (string \<Rightarrow> pyval)
     \<Rightarrow> (string \<times> string) list \<Rightarrow> account \<Rightarrow> account \<Rightarrow> exn + ledger_call" where
  "create_health_passport lib json_dumps globals health_dict issuer_account passport_account =
     (case sign_all lib health_dict issuer_account of
        Inl e \<Rightarrow> Inl e
      | Inr hashed_dict \<Rightarrow>
          (let json_string = json_dumps hashed_dict
           in case load_global globals ''allow_only_signed'' of
                Inl e \<Rightarrow> Inl e
              | Inr allow_only_signed \<Rightarrow>
                  Inr (CreateHealthPassport json_string (address passport_account)
                         allow_only_signed)))"

definition create_credential ::
  "'m eth_account \<Rightarrow> ((string \<times> string) list \<Rightarrow> string)
     \<Rightarrow> (string \<times> string) list \<Rightarrow> account \<Rightarrow> account \<Rightarrow> exn + ledger_call" where
  "create_credential lib json_dumps credential_dict issuer_account passport_account =
     (case sign_all lib credential_dict issuer_account of
        Inl e \<Rightarrow> Inl e
      | Inr hashed_dict \<Rightarrow>
          (let json_string = json_dumps hashed_dict
           in Inr (CreateCredential json_string (address passport_account) [])))"

subsection \<open>Reading passports and credentials\<close>

definition HEALTH_PASSPORT_STRUCT :: "string list" where
  "HEALTH_PASSPORT_STRUCT =
     [''healthJson'', ''issuerAddress'', ''allowOnlySigned'', ''credentialHashes'', ''isActive'']"

definition CREDENTIAL_STRUCT :: "string list" where
  "CREDENTIAL_STRUCT = [''credentialJson'', ''issuerAddress'', ''passportAddress'', ''isValid'']"

text \<open>
  Python's \<^verbatim>\<open>dict(pairs)\<close>: the pairs are inserted in order; a key that is already
  there keeps its place and takes the new value. \<^verbatim>\<open>zip\<close> stops at the shorter of
  its two arguments, as \<^const>\<open>zip\<close> does.
\<close>

definition py_dict :: "('k \<times> 'v) list \<Rightarrow> ('k \<times> 'v) list" where
  "py_dict pairs = foldl (\<lambda>d (k, v). AList.update k v d) [] pairs"

text \<open>
  \<open>returnPassport\<close> and \<open>returnCredential\<close> are the contract's view functions
  (\<^verbatim>\<open>.call()\<close> returns the list of output values), \<open>json_loads\<close> is \<^verbatim>\<open>json.loads\<close>.
  \<^verbatim>\<open>d['healthJson']\<close> raises \<^verbatim>\<open>KeyError\<close> when the key is not in the dictionary;
  the assignment to it replaces the value in place.
\<close>

definition get_health_passport ::
  "(string \<Rightarrow> exn + pyval list) \<Rightarrow> (pyval \<Rightarrow> exn + pyval) \<Rightarrow> string
     \<Rightarrow> exn + (string \<times> pyval) list" where
  "get_health_passport returnPassport json_loads passport_address =
     (case returnPassport passport_address of
        Inl e \<Rightarrow> Inl e
      | Inr health_passport_values \<Rightarrow>
          (let health_passport_dict = py_dict (zip HEALTH_PASSPORT_STRUCT health_passport_values)
           in case map_of health_passport_dict ''healthJson'' of
                None \<Rightarrow> Inl (KeyError ''healthJson'')
              | Some text \<Rightarrow>
                  (case json_loads text of
                     Inl e \<Rightarrow> Inl e
                   | Inr parsed \<Rightarrow>
                       Inr (AList.update ''healthJson'' parsed health_passport_dict))))"

definition get_credential ::
  "(string \<Rightarrow> exn + pyval list) \<Rightarrow> (pyval \<Rightarrow> exn + pyval) \<Rightarrow> string
     \<Rightarrow> exn + (string \<times> pyval) list" where
  "get_credential returnCredential json_loads credential_hash =
     (case returnCredential credential_hash of
        Inl e \<Rightarrow> Inl e
      | Inr credential_values \<Rightarrow>
          (let credential_dict = py_dict (zip CREDENTIAL_STRUCT credential_values)
           in case map_of credential_dict ''credentialJson'' of
                None \<Rightarrow> Inl (KeyError ''credentialJson'')
              | Some text \<Rightarrow>
                  (case json_loads text of
                     Inl e \<Rightarrow> Inl e
                   | Inr parsed \<Rightarrow>
                       Inr (AList.update ''credentialJson'' parsed credential_dict))))"

text \<open>
  Stand-ins for a run of the read path: a view function that returns the same tuple for
  every key, and \<^verbatim>\<open>json.loads\<close> on a table of known payloads (\<^verbatim>\<open>TypeError\<close> on a
  value that is not a string, a \<^verbatim>\<open>ValueError\<close> on a string that does not parse).
\<close>

definition constant_view :: "pyval list \<Rightarrow> string \<Rightarrow> exn + pyval list" where
  "constant_view values key = Inr values"

definition json_loads_table :: "(string \<times> pyval) list \<Rightarrow> pyval \<Rightarrow> exn + pyval" where
  "json_loads_table table v =
     (case v of
        PStr s \<Rightarrow>
          (case map_of table s of
             Some parsed \<Rightarrow> Inr parsed
           | None \<Rightarrow> Inl (ValueError ''Expecting value''))
      | _ \<Rightarrow> Inl (TypeError ''the JSON object must be str, bytes or bytearray''))"

text \<open>
  A payload as the issuer writes it, \<^verbatim>\<open>json.dumps\<close> of a map with one signed field:
  the field name and the signature between double quotes (character \<open>0x22\<close>).
\<close>

definition quoted :: "string \<Rightarrow> string" where
  "quoted s = [CHR 0x22] @ s @ [CHR 0x22]"

definition sample_payload :: string where
  "sample_payload = ''{'' @ quoted ''First Name'' @ '': '' @ quoted ''k/John'' @ ''}''"

definition sample_fields :: pyval where
  "sample_fields = PDict [(''First Name'', PStr ''k/John'')]"

subsection \<open>Transfers and fund recovery\<close>

text \<open>
  \<^verbatim>\<open>web3.fromWei(n, 'ether')\<close> and \<^verbatim>\<open>web3.toWei(d, 'ether')\<close>, with \<open>'d\<close> the type of
  amounts in ether.
\<close>

record 'd units =
  fromWei :: "int \<Rightarrow> exn + 'd"
  toWei :: "'d \<Rightarrow> exn + int"

text \<open>The transaction dictionary; \<^verbatim>\<open>gasPrice\<close> and \<^verbatim>\<open>gas\<close> are optional keys.\<close>

record transaction =
  tx_from :: string
  tx_to :: string
  tx_value :: int
  chainId :: int
  nonce :: int
  gasPrice :: "int option"
  gas :: "int option"

text \<open>
  What the node answers: balances, the price the gas strategy generates (\<^verbatim>\<open>None\<close> when
  no strategy is set), transaction counts, and the outcome of \<^verbatim>\<open>send_transaction\<close>
  (the transaction hash in hexadecimal, or an exception). \<open>etherscan_url\<close> is the field of
  the object.
\<close>

record node =
  get_balance :: "string \<Rightarrow> int"
  generateGasPrice :: "int option"
  getTransactionCount :: "string \<Rightarrow> int"
  send_transaction :: "transaction \<Rightarrow> exn + string"
  etherscan_url :: string

text \<open>What a call does besides returning: transactions handed to the node, printed lines.\<close>

datatype 'd effect =
    Submit transaction
  | Printed string
  | PrintedSent 'd string string

text \<open>Truth value of an optional integer argument: \<^verbatim>\<open>None\<close> and \<open>0\<close> are false.\<close>

fun truthy :: "int option \<Rightarrow> bool" where
  "truthy None = False"
| "truthy (Some n) = (n \<noteq> 0)"

text \<open>The result is the list of effects and the exception raised, if any.\<close>

definition transfer_eth ::
  "'d units \<Rightarrow> node \<Rightarrow> string \<Rightarrow> string \<Rightarrow> 'd \<Rightarrow> int option \<Rightarrow> int option
     \<Rightarrow> 'd effect list \<times> exn option" where
  "transfer_eth u nd from_address to_address amount gas_price gas_amount =
     (case toWei u amount of
        Inl e \<Rightarrow> ([], Some e)
      | Inr wei \<Rightarrow>
          (let transaction =
                 \<lparr> tx_from = from_address, tx_to = to_address, tx_value = wei, chainId = 3,
                   nonce = getTransactionCount nd from_address, gasPrice = None, gas = None \<rparr>;
               transaction =
                 (if truthy gas_price then transaction\<lparr>gasPrice := gas_price\<rparr>
                  else transaction);
               transaction =
                 (if truthy gas_amount then transaction\<lparr>gas := gas_amount\<rparr>
                  else transaction)
           in case send_transaction nd transaction of
                Inl e \<Rightarrow> ([Submit transaction], Some e)
              | Inr tx_hash \<Rightarrow>
                  ([Submit transaction,
                    PrintedSent amount from_address to_address,
                    Printed (''Transaction URL: '' @ etherscan_url nd @ ''/tx/0x'' @ tx_hash)],
                   None)))"

definition send_account_balance ::
  "'d units \<Rightarrow> node \<Rightarrow> string \<Rightarrow> string \<Rightarrow> 'd effect list \<times> exn option" where
  "send_account_balance u nd from_address to_address =
     (let account_balance = get_balance nd from_address
      in if account_balance = 0 then ([Printed ''No eth to send!''], None)
         else
           (case generateGasPrice nd of
              None \<Rightarrow> ([], Some (TypeError ''unsupported operand type(s) for *''))
            | Some gas_price \<Rightarrow>
                (case fromWei u (account_balance - (21000 * gas_price)) of
                   Inl e \<Rightarrow> ([], Some e)
                 | Inr balance_minus_gas \<Rightarrow>
                     transfer_eth u nd from_address to_address balance_minus_gas
                       (Some gas_price) (Some 21000))))"

text \<open>
  The unit conversions of \<^verbatim>\<open>web3\<close> (\<^verbatim>\<open>eth_utils.currency\<close>), with exact rationals for
  \<^verbatim>\<open>Decimal\<close>: both accept only values between \<open>MIN_WEI\<close> and \<open>MAX_WEI\<close> and raise
  \<^verbatim>\<open>ValueError\<close> outside; one ether is \<open>10 ^ 18\<close> wei; \<^verbatim>\<open>int(...)\<close> drops the
  fraction of a value that is not negative.
\<close>

definition MIN_WEI :: int where
  "MIN_WEI = 0"

definition MAX_WEI :: int where
  "MAX_WEI = 2 ^ 256 - 1"

definition web3_fromWei :: "int \<Rightarrow> exn + rat" where
  "web3_fromWei number =
     (if number = 0 then Inr 0
      else if number < MIN_WEI \<or> number > MAX_WEI
        then Inl (ValueError ''value must be between 1 and 2**256 - 1'')
      else Inr (of_int number / 10 ^ 18))"

definition web3_toWei :: "rat \<Rightarrow> exn + int" where
  "web3_toWei number =
     (if number = 0 then Inr 0
      else let result_value = number * 10 ^ 18
           in if result_value < of_int MIN_WEI \<or> result_value > of_int MAX_WEI
                then Inl (ValueError ''Resulting wei value must be between 1 and 2**256 - 1'')
              else Inr (floor result_value))"

definition web3_units :: "rat units" where
  "web3_units = \<lparr> fromWei = web3_fromWei, toWei = web3_toWei \<rparr>"

text \<open>A node for sample runs: one balance and one gas price, every transaction accepted.\<close>

definition sample_node :: "int \<Rightarrow> int \<Rightarrow> node" where
  "sample_node balance price =
     \<lparr> get_balance = (\<lambda>a. balance), generateGasPrice = Some price,
       getTransactionCount = (\<lambda>a. 0), send_transaction = (\<lambda>t. Inr ''ab''),
       etherscan_url = ''https://ropsten.etherscan.io'' \<rparr>"

subsection \<open>The script\<close>

text \<open>
  The control flow of the script under \<^verbatim>\<open>if __name__ == '__main__'\<close>. What each step
  does on the ledger is given by the run: the two optional keys of the configuration and,
  for each step that can raise, the exception it raises, if any. \<open>setup_raises\<close> covers
  the statements up to the balance warning, \<open>body_raises\<close> the body of the \<^verbatim>\<open>try\<close>.
\<close>

record run =
  ISSUER_PRIVATE_KEY :: string
  PASSPORT_PRIVATE_KEY :: string
  setup_raises :: "exn option"
  issuer_account_raises :: "exn option"
  seed_raises :: "exn option"
  passport_account_raises :: "exn option"
  body_raises :: "exn option"
  recover_raises :: "exn option"

text \<open>
  The events of a run: \<open>Seed\<close> is the call \<^verbatim>\<open>transfer_eth(owner, issuer, 0.05)\<close>,
  \<open>Body\<close> the entry into the \<^verbatim>\<open>try\<close>, \<open>Caught e\<close> the handler printing \<open>e\<close>,
  \<open>Recover\<close> the call \<^verbatim>\<open>send_account_balance(issuer, owner)\<close>, \<open>Done\<close> the last print.
\<close>

datatype event = Seed | Body | Caught exn | Recover | Done

definition finish :: "run \<Rightarrow> event list \<Rightarrow> bool \<Rightarrow> event list \<times> exn option" where
  "finish r trace recover_eth =
     (if recover_eth then
        (case recover_raises r of
           Some e \<Rightarrow> (trace @ [Recover], Some e)
         | None \<Rightarrow> (trace @ [Recover, Done], None))
      else (trace @ [Done], None))"

text \<open>\<^verbatim>\<open>except Exception as e\<close> handles the instances of \<^verbatim>\<open>Exception\<close>; any other
  exception leaves the script.\<close>

definition try_body :: "run \<Rightarrow> event list \<Rightarrow> bool \<Rightarrow> event list \<times> exn option" where
  "try_body r trace recover_eth =
     (case body_raises r of
        None \<Rightarrow> finish r (trace @ [Body]) recover_eth
      | Some e \<Rightarrow>
          if is_Exception e then finish r (trace @ [Body, Caught e]) recover_eth
          else (trace @ [Body], Some e))"

definition main :: "run \<Rightarrow> event list \<times> exn option" where
  "main r =
     (case setup_raises r of
        Some e \<Rightarrow> ([], Some e)
      | None \<Rightarrow>
          (case issuer_account_raises r of
             Some e \<Rightarrow> ([], Some e)
           | None \<Rightarrow>
               if ISSUER_PRIVATE_KEY r = [] then
                 (case seed_raises r of
                    Some e \<Rightarrow> ([Seed], Some e)
                  | None \<Rightarrow>
                      (case passport_account_raises r of
                         Some e \<Rightarrow> ([Seed], Some e)
                       | None \<Rightarrow> try_body r [Seed] True))
               else
                 (case passport_account_raises r of
                    Some e \<Rightarrow> ([], Some e)
                  | None \<Rightarrow> try_body r [] False)))"

section \<open>Properties\<close>

subsection \<open>Signature validation\<close>

lemma validate_signature_Inr:
  "recover_message lib (encode_defunct lib data) sg = Inr a \<Longrightarrow>
   validate_signature lib data sg signer = Inr (signer = a)"
  by (simp add: validate_signature_def)

lemma validate_signature_Inl:
  "recover_message lib (encode_defunct lib data) sg = Inl e \<Longrightarrow>
   validate_signature lib data sg signer = Inl e"
  by (simp add: validate_signature_def)

lemma symbolic_simps:
  "encode_defunct symbolic t = t"
  "sign_message_hex symbolic m k = Inr (k @ ''/'' @ m)"
  "recover_message symbolic = sym_recover"
  by (simp_all add: symbolic_def)

text \<open>
  C2 (as stated). The claim says that \<open>validate_signature\<close> never raises and returns
  \<open>False\<close> on a malformed signature. The function has no handler: with a library whose
  recovery rejects a malformed signature, the exception reaches the caller.
\<close>

theorem validate_signature_malformed_raises:
  "validate_signature symbolic ''John'' ''zz'' ''k'' = Inl (ValueError ''malformed signature'')"
  by (simp add: validate_signature_def symbolic_simps sym_recover_def)

text \<open>
  C2 (amended). \<open>validate_signature\<close> returns a boolean exactly when the library's
  address recovery returns an address, \<open>True\<close> iff that address equals the expected
  signer; an exception raised by the recovery is raised by \<open>validate_signature\<close> unchanged.
\<close>

theorem validate_signature_result:
  "(recover_message lib (encode_defunct lib data) sg = Inr a \<longrightarrow>
      validate_signature lib data sg signer = Inr (signer = a)) \<and>
   (recover_message lib (encode_defunct lib data) sg = Inl e \<longrightarrow>
      validate_signature lib data sg signer = Inl e)"
  using validate_signature_Inr [of lib data sg a signer]
    validate_signature_Inl [of lib data sg e signer]
  by blast

theorem validate_signature_result_witness:
  "recover_message symbolic (encode_defunct symbolic ''John'') ''k/John'' = Inr ''k'' \<and>
   validate_signature symbolic ''John'' ''k/John'' ''k'' = Inr True \<and>
   recover_message symbolic (encode_defunct symbolic ''John'') ''zz''
     = Inl (ValueError ''malformed signature'') \<and>
   validate_signature symbolic ''John'' ''zz'' ''k'' = Inl (ValueError ''malformed signature'')"
proof -
  have ok: "recover_message symbolic (encode_defunct symbolic ''John'') ''k/John'' = Inr ''k''"
    by (simp add: symbolic_simps sym_recover_def)
  have bad: "recover_message symbolic (encode_defunct symbolic ''John'') ''zz''
      = Inl (ValueError ''malformed signature'')"
    by (simp add: symbolic_simps sym_recover_def)
  from ok validate_signature_result
    [of symbolic "''John''" "''k/John''" "''k''" "''k''" "ValueError ''malformed signature''"]
  have 1: "validate_signature symbolic ''John'' ''k/John'' ''k'' = Inr True" by simp
  from bad validate_signature_result
    [of symbolic "''John''" "''zz''" "''k''" "''k''" "ValueError ''malformed signature''"]
  have 2: "validate_signature symbolic ''John'' ''zz'' ''k''
      = Inl (ValueError ''malformed signature'')" by simp
  from ok bad 1 2 show ?thesis by simp
qed

subsection \<open>Dictionary validation\<close>

lemma validate_data_dict_skip:
  "list_all (field_verifies lib pt signer) pre \<Longrightarrow>
   validate_data_dict lib pt (pre @ rest) signer = validate_data_dict lib pt rest signer"
proof (induction pre)
  case Nil
  show ?case by simp
next
  case (Cons f pre)
  obtain k sg where f: "f = (k, sg)" by (cases f)
  from Cons.prems have "field_verifies lib pt signer (k, sg)" by (simp add: f)
  then obtain d where "map_of pt k = Some d" "validate_signature lib d sg signer = Inr True"
    by (auto simp: field_verifies_def split: option.splits)
  with Cons show ?case by (simp add: f)
qed

lemma validate_data_dict_all_verify:
  "list_all (field_verifies lib pt signer) signed \<Longrightarrow>
   validate_data_dict lib pt signed signer = ([], Inr True)"
  using validate_data_dict_skip [of lib pt signer signed "[]"] by simp

lemma sym_verifies:
  "validate_signature symbolic ''John'' ''k/John'' ''k'' = Inr True"
  "validate_signature symbolic ''Smith'' ''k/Smith'' ''k'' = Inr True"
  "validate_signature symbolic ''John'' ''k/Smith'' ''k'' = Inr False"
  "validate_signature symbolic ''Smith'' ''k/John'' ''k'' = Inr False"
  by (simp_all add: validate_signature_def symbolic_simps sym_recover_def)

text \<open>
  C4 (as stated). The claim says that the failure returned at the first failing signature
  carries the failing field's name as the error value. The function returns the bare
  boolean \<open>False\<close>: a failure at field \<open>Last Name\<close> and a failure at field
  \<open>First Name\<close> return the same value (the second component below), and it is a
  normal return, not an error; only the printed line (the first component) differs.
\<close>

theorem validate_data_dict_failure_is_bare_False:
  "validate_data_dict symbolic
     [(''First Name'', ''John''), (''Last Name'', ''Smith'')]
     [(''First Name'', ''k/John''), (''Last Name'', ''k/John'')] ''k''
     = ([warning ''Last Name''], Inr False) \<and>
   validate_data_dict symbolic
     [(''First Name'', ''John''), (''Last Name'', ''Smith'')]
     [(''First Name'', ''k/Smith''), (''Last Name'', ''k/Smith'')] ''k''
     = ([warning ''First Name''], Inr False)"
  by (simp add: sym_verifies)

text \<open>
  C4 (amended). \<open>validate_data_dict\<close> checks the fields in the iteration order of the
  signed map. If every field verifies (its key is in the plaintext map and the signature
  check returns \<open>True\<close>), it returns \<open>True\<close> and prints nothing. If the fields before
  some field verify and that field's signature check returns \<open>False\<close>, it stops there,
  prints one warning naming that field and returns \<open>False\<close>, whatever follows in the
  signed map; the field's name is in the printed warning only, not in the returned value.
\<close>

theorem validate_data_dict_first_failure:
  "(list_all (field_verifies lib pt signer) signed \<longrightarrow>
      validate_data_dict lib pt signed signer = ([], Inr True)) \<and>
   (list_all (field_verifies lib pt signer) pre \<and> map_of pt key = Some data \<and>
    validate_signature lib data sg signer = Inr False \<longrightarrow>
      validate_data_dict lib pt (pre @ (key, sg) # post) signer = ([warning key], Inr False))"
proof (intro conjI impI)
  assume "list_all (field_verifies lib pt signer) signed"
  then show "validate_data_dict lib pt signed signer = ([], Inr True)"
    by (rule validate_data_dict_all_verify)
next
  assume a: "list_all (field_verifies lib pt signer) pre \<and> map_of pt key = Some data \<and>
    validate_signature lib data sg signer = Inr False"
  then have "validate_data_dict lib pt (pre @ (key, sg) # post) signer
      = validate_data_dict lib pt ((key, sg) # post) signer"
    by (simp add: validate_data_dict_skip)
  also from a have "\<dots> = ([warning key], Inr False)" by simp
  finally show "validate_data_dict lib pt (pre @ (key, sg) # post) signer
      = ([warning key], Inr False)" .
qed

theorem validate_data_dict_first_failure_witness:
  "list_all (field_verifies symbolic
       [(''First Name'', ''John''), (''Last Name'', ''Smith'')] ''k'')
     [(''First Name'', ''k/John''), (''Last Name'', ''k/Smith'')] \<and>
   validate_data_dict symbolic [(''First Name'', ''John''), (''Last Name'', ''Smith'')]
     [(''First Name'', ''k/John''), (''Last Name'', ''k/Smith'')] ''k'' = ([], Inr True) \<and>
   list_all (field_verifies symbolic
       [(''First Name'', ''John''), (''Last Name'', ''Smith'')] ''k'')
     [(''First Name'', ''k/John'')] \<and>
   map_of [(''First Name'', ''John''), (''Last Name'', ''Smith'')] ''Last Name'' = Some ''Smith'' \<and>
   validate_signature symbolic ''Smith'' ''k/John'' ''k'' = Inr False \<and>
   validate_data_dict symbolic [(''First Name'', ''John''), (''Last Name'', ''Smith'')]
     ([(''First Name'', ''k/John'')] @ (''Last Name'', ''k/John'') # [(''Date of Birth'', ''zz'')])
     ''k'' = ([warning ''Last Name''], Inr False)"
proof -
  let ?pt = "[(''First Name'', ''John''), (''Last Name'', ''Smith'')]"
  have all: "list_all (field_verifies symbolic ?pt ''k'')
      [(''First Name'', ''k/John''), (''Last Name'', ''k/Smith'')]"
    by (simp add: field_verifies_def sym_verifies)
  have pre: "list_all (field_verifies symbolic ?pt ''k'') [(''First Name'', ''k/John'')]"
    by (simp add: field_verifies_def sym_verifies)
  have look: "map_of ?pt ''Last Name'' = Some ''Smith''" by simp
  have bad: "validate_signature symbolic ''Smith'' ''k/John'' ''k'' = Inr False"
    by (simp add: sym_verifies)
  note inst = validate_data_dict_first_failure
    [of symbolic ?pt "''k''" "[(''First Name'', ''k/John''), (''Last Name'', ''k/Smith'')]"
      "[(''First Name'', ''k/John'')]" "''Last Name''" "''Smith''" "''k/John''"
      "[(''Date of Birth'', ''zz'')]"]
  from inst all have 1: "validate_data_dict symbolic ?pt
      [(''First Name'', ''k/John''), (''Last Name'', ''k/Smith'')] ''k'' = ([], Inr True)"
    by blast
  from inst pre look bad have 2: "validate_data_dict symbolic ?pt
      ([(''First Name'', ''k/John'')] @ (''Last Name'', ''k/John'') # [(''Date of Birth'', ''zz'')])
      ''k'' = ([warning ''Last Name''], Inr False)"
    by blast
  from all pre look bad 1 2 show ?thesis by blast
qed

text \<open>
  C5 (as stated). The claim says that every signed map with a key absent from the
  plaintext map makes \<open>validate_data_dict\<close> fail with the missing-field error. Here the
  signed map has the key \<open>Last Name\<close>, which the plaintext map lacks, but the field
  before it fails verification first: the call prints the warning for \<open>First Name\<close>
  and returns \<open>False\<close>; no error is raised.
\<close>

theorem validate_data_dict_missing_key_not_reached:
  "map_of [(''First Name'', ''John'')] ''Last Name'' = None \<and>
   validate_data_dict symbolic [(''First Name'', ''John'')]
     [(''First Name'', ''k/Smith''), (''Last Name'', ''k/Smith'')] ''k''
     = ([warning ''First Name''], Inr False)"
  by (simp add: validate_signature_def symbolic_simps sym_recover_def)

text \<open>
  C5 (amended). When the fields before some field of the signed map verify and that
  field's key is absent from the plaintext map, \<open>validate_data_dict\<close> raises Python's
  \<open>KeyError\<close> carrying that key (the lookup \<open>plaintext_dict[key]\<close>), prints nothing and
  returns no boolean, whatever follows in the signed map.
\<close>

theorem validate_data_dict_missing_key:
  "list_all (field_verifies lib pt signer) pre \<Longrightarrow> map_of pt key = None \<Longrightarrow>
   validate_data_dict lib pt (pre @ (key, sg) # post) signer = ([], Inl (KeyError key))"
  by (simp add: validate_data_dict_skip)

theorem validate_data_dict_missing_key_witness:
  "list_all (field_verifies symbolic [(''First Name'', ''John'')] ''k'')
     [(''First Name'', ''k/John'')] \<and>
   map_of [(''First Name'', ''John'')] ''Last Name'' = None \<and>
   validate_data_dict symbolic [(''First Name'', ''John'')]
     ([(''First Name'', ''k/John'')] @ (''Last Name'', ''k/Smith'') # []) ''k''
     = ([], Inl (KeyError ''Last Name''))"
proof -
  have pre: "list_all (field_verifies symbolic [(''First Name'', ''John'')] ''k'')
      [(''First Name'', ''k/John'')]"
    by (simp add: field_verifies_def sym_verifies)
  have none: "map_of [(''First Name'', ''John'')] ''Last Name'' = None" by simp
  from pre none validate_data_dict_missing_key [OF pre none, of "''k/Smith''" "[]"]
  show ?thesis by blast
qed

subsection \<open>Creating a passport\<close>

lemma allow_only_signed_unbound: "''allow_only_signed'' \<notin> set module_globals"
  by (simp add: module_globals_def)

text \<open>
  C3. The claim says that passport creation takes the \<open>allowOnlySigned\<close> flag from its
  caller and submits the write with the encoded fields, the passport address and that
  flag. \<open>create_health_passport\<close> has no such parameter and the module binds no such
  name: on every input the call raises, either in signing or, once all fields are signed,
  \<open>NameError\<close> at the argument \<open>allow_only_signed\<close>, and no write is submitted.
\<close>

theorem create_health_passport_never_submits:
  "create_health_passport lib json_dumps globals health_dict issuer_account passport_account =
     (case sign_all lib health_dict issuer_account of
        Inl e \<Rightarrow> Inl e
      | Inr hashed_dict \<Rightarrow> Inl (NameError ''allow_only_signed''))"
  by (simp add: create_health_passport_def load_global_def allow_only_signed_unbound
      split: sum.splits)

subsection \<open>Decoding what the ledger returns\<close>

lemma update_fresh: "k \<notin> fst ` set al \<Longrightarrow> AList.update k v al = al @ [(k, v)]"
  by (induction al) auto

lemma py_dict_foldl:
  "distinct (map fst (acc @ ps)) \<Longrightarrow>
   foldl (\<lambda>d (k, v). AList.update k v d) acc ps = acc @ ps"
proof (induction ps arbitrary: acc)
  case Nil
  show ?case by simp
next
  case (Cons p ps)
  obtain k v where p: "p = (k, v)" by (cases p)
  from Cons.prems have "k \<notin> fst ` set acc" by (auto simp: p)
  then have u: "AList.update k v acc = acc @ [(k, v)]" by (rule update_fresh)
  from Cons.prems have "distinct (map fst ((acc @ [(k, v)]) @ ps))" by (simp add: p)
  from Cons.IH [OF this] show ?case by (simp add: p u)
qed

lemma py_dict_zip: "distinct ks \<Longrightarrow> py_dict (zip ks vs) = zip ks vs"
  using py_dict_foldl [of "[]" "zip ks vs"]
  by (simp add: py_dict_def map_fst_zip_take)

lemma decode_nonempty:
  assumes "distinct (k # ks)" and "json_loads v = Inr j"
  shows "(let d = py_dict (zip (k # ks) (v # vs))
          in case map_of d k of
               None \<Rightarrow> Inl (KeyError k)
             | Some text \<Rightarrow>
                 (case json_loads text of
                    Inl e \<Rightarrow> Inl e
                  | Inr parsed \<Rightarrow> Inr (AList.update k parsed d)))
         = Inr (zip (k # ks) (j # vs))"
proof -
  from assms(1) have "py_dict (zip (k # ks) (v # vs)) = zip (k # ks) (v # vs)"
    by (rule py_dict_zip)
  then have eq: "py_dict (zip (k # ks) (v # vs)) = (k, v) # zip ks vs" by simp
  show ?thesis unfolding eq Let_def using assms(2) by simp
qed

lemma get_health_passport_nonempty:
  assumes "returnPassport a = Inr (v # vs)" and "json_loads v = Inr j"
  shows "get_health_passport returnPassport json_loads a
    = Inr (zip HEALTH_PASSPORT_STRUCT (j # vs))"
proof -
  let ?ks = "[''issuerAddress'', ''allowOnlySigned'', ''credentialHashes'', ''isActive'']"
  have d: "distinct (''healthJson'' # ?ks)" by simp
  show ?thesis
    using assms(1)
      decode_nonempty [where json_loads = json_loads and v = v and j = j and vs = vs, OF d assms(2)]
    by (simp add: get_health_passport_def HEALTH_PASSPORT_STRUCT_def)
qed

lemma get_credential_nonempty:
  assumes "returnCredential h = Inr (v # vs)" and "json_loads v = Inr j"
  shows "get_credential returnCredential json_loads h
    = Inr (zip CREDENTIAL_STRUCT (j # vs))"
proof -
  let ?ks = "[''issuerAddress'', ''passportAddress'', ''isValid'']"
  have d: "distinct (''credentialJson'' # ?ks)" by simp
  show ?thesis
    using assms(1)
      decode_nonempty [where json_loads = json_loads and v = v and j = j and vs = vs, OF d assms(2)]
    by (simp add: get_credential_def CREDENTIAL_STRUCT_def)
qed

lemma zip_truncate: "zip ks vs = zip (take (length vs) ks) vs"
proof -
  have "zip (take (length vs) ks) vs = zip (take (length vs) ks) (take (length vs) vs)"
    by simp
  also have "\<dots> = take (length vs) (zip ks vs)" by (simp only: take_zip)
  also have "\<dots> = zip ks vs" by simp
  finally show ?thesis by simp
qed

lemma decode_raises:
  assumes "distinct (k # ks)" and "json_loads v = Inl e"
  shows "(let d = py_dict (zip (k # ks) (v # vs))
          in case map_of d k of
               None \<Rightarrow> Inl (KeyError k)
             | Some text \<Rightarrow>
                 (case json_loads text of
                    Inl e \<Rightarrow> Inl e
                  | Inr parsed \<Rightarrow> Inr (AList.update k parsed d)))
         = Inl e"
proof -
  from assms(1) have "py_dict (zip (k # ks) (v # vs)) = zip (k # ks) (v # vs)"
    by (rule py_dict_zip)
  then have eq: "py_dict (zip (k # ks) (v # vs)) = (k, v) # zip ks vs" by simp
  show ?thesis unfolding eq Let_def using assms(2) by simp
qed

lemma get_health_passport_raises:
  assumes "returnPassport a = Inr (v # vs)" and "json_loads v = Inl e"
  shows "get_health_passport returnPassport json_loads a = Inl e"
proof -
  let ?ks = "[''issuerAddress'', ''allowOnlySigned'', ''credentialHashes'', ''isActive'']"
  have d: "distinct (''healthJson'' # ?ks)" by simp
  show ?thesis
    using assms(1)
      decode_raises [where json_loads = json_loads and v = v and e = e and vs = vs, OF d assms(2)]
    by (simp add: get_health_passport_def HEALTH_PASSPORT_STRUCT_def)
qed

lemma get_credential_raises:
  assumes "returnCredential h = Inr (v # vs)" and "json_loads v = Inl e"
  shows "get_credential returnCredential json_loads h = Inl e"
proof -
  let ?ks = "[''issuerAddress'', ''passportAddress'', ''isValid'']"
  have d: "distinct (''credentialJson'' # ?ks)" by simp
  show ?thesis
    using assms(1)
      decode_raises [where json_loads = json_loads and v = v and e = e and vs = vs, OF d assms(2)]
    by (simp add: get_credential_def CREDENTIAL_STRUCT_def)
qed

lemma get_health_passport_five:
  assumes "returnPassport a = Inr [f, i, s, c, act]"
  shows "get_health_passport returnPassport json_loads a =
     (case json_loads f of
        Inl e \<Rightarrow> Inl e
      | Inr j \<Rightarrow>
          Inr [(''healthJson'', j), (''issuerAddress'', i), (''allowOnlySigned'', s),
               (''credentialHashes'', c), (''isActive'', act)])"
proof (cases "json_loads f")
  case (Inl e)
  from assms have "returnPassport a = Inr (f # [i, s, c, act])" by simp
  from get_health_passport_raises
    [where returnPassport = returnPassport and json_loads = json_loads, OF this Inl] Inl
  show ?thesis by simp
next
  case (Inr j)
  from assms have "returnPassport a = Inr (f # [i, s, c, act])" by simp
  from get_health_passport_nonempty
    [where returnPassport = returnPassport and json_loads = json_loads, OF this Inr] Inr
  show ?thesis by (simp add: HEALTH_PASSPORT_STRUCT_def)
qed

lemma get_credential_four:
  assumes "returnCredential h = Inr [f, i, p, v]"
  shows "get_credential returnCredential json_loads h =
     (case json_loads f of
        Inl e \<Rightarrow> Inl e
      | Inr j \<Rightarrow>
          Inr [(''credentialJson'', j), (''issuerAddress'', i), (''passportAddress'', p),
               (''isValid'', v)])"
proof (cases "json_loads f")
  case (Inl e)
  from assms have "returnCredential h = Inr (f # [i, p, v])" by simp
  from get_credential_raises
    [where returnCredential = returnCredential and json_loads = json_loads, OF this Inl] Inl
  show ?thesis by simp
next
  case (Inr j)
  from assms have "returnCredential h = Inr (f # [i, p, v])" by simp
  from get_credential_nonempty
    [where returnCredential = returnCredential and json_loads = json_loads, OF this Inr] Inr
  show ?thesis by (simp add: CREDENTIAL_STRUCT_def)
qed

text \<open>
  C8 (as stated). The claim says that every tuple the ledger reads return is decoded into
  a record whose payload is a field-name-to-signature map. The payload is whatever string
  the issuer wrote, and the readers hand it to \<open>json.loads\<close> unchecked. On a passport
  whose payload is not JSON, \<open>get_health_passport\<close> raises and returns no record; on a
  credential whose payload is the JSON list \<open>[1]\<close>, \<open>get_credential\<close> returns a record
  whose payload is that list, not a map.
\<close>

theorem decode_payload_not_a_map:
  "get_health_passport
     (constant_view [PStr ''not json'', PStr ''0xI'', PBool False, PList [], PBool True])
     (json_loads_table [(''[1]'', PList [PInt 1])]) ''0xP''
     = Inl (ValueError ''Expecting value'') \<and>
   get_credential (constant_view [PStr ''[1]'', PStr ''0xI'', PStr ''0xP'', PBool True])
     (json_loads_table [(''[1]'', PList [PInt 1])]) ''c1''
     = Inr [(''credentialJson'', PList [PInt 1]), (''issuerAddress'', PStr ''0xI''),
            (''passportAddress'', PStr ''0xP''), (''isValid'', PBool True)]"
  by (simp add: get_health_passport_def get_credential_def constant_view_def py_dict_def
      json_loads_table_def HEALTH_PASSPORT_STRUCT_def CREDENTIAL_STRUCT_def)

text \<open>
  C8 (amended). \<open>get_health_passport\<close> decodes every tuple of five values that
  \<open>returnPassport\<close> returns by position, in the order payload, issuer address,
  allow-only-signed flag, credential references, active flag. If \<open>json.loads\<close> raises
  on the payload, the reader raises the same exception. Otherwise the record holds the
  five values under the five keys in that order, with the payload replaced by the value
  that \<open>json.loads\<close> returns for it, whatever JSON value that is: the field-name-to-signature
  map when the payload is the JSON object the issuer wrote, and the reader does not check
  that it is one. \<open>get_credential\<close> does the same with every tuple of four values of
  \<open>returnCredential\<close>, in the order payload, issuer address, passport reference, validity
  flag.
\<close>

theorem decode_by_fixed_order:
  "(returnPassport a = Inr [f, i, s, c, act] \<longrightarrow>
      get_health_passport returnPassport json_loads a =
        (case json_loads f of
           Inl e \<Rightarrow> Inl e
         | Inr j \<Rightarrow>
             Inr [(''healthJson'', j), (''issuerAddress'', i), (''allowOnlySigned'', s),
                  (''credentialHashes'', c), (''isActive'', act)])) \<and>
   (returnCredential h = Inr [f', i', p, v] \<longrightarrow>
      get_credential returnCredential json_loads h =
        (case json_loads f' of
           Inl e \<Rightarrow> Inl e
         | Inr j \<Rightarrow>
             Inr [(''credentialJson'', j), (''issuerAddress'', i'), (''passportAddress'', p),
                  (''isValid'', v)]))"
  using get_health_passport_five [of returnPassport a f i s c act json_loads]
    get_credential_four [of returnCredential h f' i' p v json_loads]
  by blast

theorem decode_by_fixed_order_witness:
  "constant_view
     [PStr sample_payload, PStr ''0xI'', PBool False, PList [PStr ''c1''], PBool True] ''0xP''
     = Inr [PStr sample_payload, PStr ''0xI'', PBool False, PList [PStr ''c1''], PBool True] \<and>
   get_health_passport
     (constant_view
        [PStr sample_payload, PStr ''0xI'', PBool False, PList [PStr ''c1''], PBool True])
     (json_loads_table [(sample_payload, sample_fields)]) ''0xP'' =
     Inr [(''healthJson'', PDict [(''First Name'', PStr ''k/John'')]),
          (''issuerAddress'', PStr ''0xI''), (''allowOnlySigned'', PBool False),
          (''credentialHashes'', PList [PStr ''c1'']), (''isActive'', PBool True)] \<and>
   constant_view [PStr ''not json'', PStr ''0xI'', PStr ''0xP'', PBool True] ''c1''
     = Inr [PStr ''not json'', PStr ''0xI'', PStr ''0xP'', PBool True] \<and>
   get_credential (constant_view [PStr ''not json'', PStr ''0xI'', PStr ''0xP'', PBool True])
     (json_loads_table [(sample_payload, sample_fields)]) ''c1''
     = Inl (ValueError ''Expecting value'')"
proof -
  let ?pv = "constant_view
    [PStr sample_payload, PStr ''0xI'', PBool False, PList [PStr ''c1''], PBool True]"
  let ?cv = "constant_view [PStr ''not json'', PStr ''0xI'', PStr ''0xP'', PBool True]"
  let ?jl = "json_loads_table [(sample_payload, sample_fields)]"
  have p: "?pv ''0xP''
      = Inr [PStr sample_payload, PStr ''0xI'', PBool False, PList [PStr ''c1''], PBool True]"
    by (simp add: constant_view_def)
  have c: "?cv ''c1'' = Inr [PStr ''not json'', PStr ''0xI'', PStr ''0xP'', PBool True]"
    by (simp add: constant_view_def)
  have j: "?jl (PStr sample_payload) = Inr (PDict [(''First Name'', PStr ''k/John'')])"
    by (simp add: json_loads_table_def sample_fields_def)
  have n: "?jl (PStr ''not json'') = Inl (ValueError ''Expecting value'')"
    by (simp add: json_loads_table_def sample_payload_def quoted_def)
  note inst = decode_by_fixed_order
    [where returnPassport = ?pv and a = "''0xP''" and json_loads = ?jl
       and f = "PStr sample_payload" and i = "PStr ''0xI''" and s = "PBool False"
       and c = "PList [PStr ''c1'']" and act = "PBool True"
       and returnCredential = ?cv and h = "''c1''" and f' = "PStr ''not json''"
       and i' = "PStr ''0xI''" and p = "PStr ''0xP''" and v = "PBool True"]
  from inst p have 1: "get_health_passport ?pv ?jl ''0xP'' =
      (case ?jl (PStr sample_payload) of
         Inl e \<Rightarrow> Inl e
       | Inr j \<Rightarrow>
           Inr [(''healthJson'', j), (''issuerAddress'', PStr ''0xI''),
                (''allowOnlySigned'', PBool False),
                (''credentialHashes'', PList [PStr ''c1'']), (''isActive'', PBool True)])"
    by blast
  from inst c have 2: "get_credential ?cv ?jl ''c1'' =
      (case ?jl (PStr ''not json'') of
         Inl e \<Rightarrow> Inl e
       | Inr j \<Rightarrow>
           Inr [(''credentialJson'', j), (''issuerAddress'', PStr ''0xI''),
                (''passportAddress'', PStr ''0xP''), (''isValid'', PBool True)])"
    by blast
  from 1 have 1: "get_health_passport ?pv ?jl ''0xP'' =
      Inr [(''healthJson'', PDict [(''First Name'', PStr ''k/John'')]),
           (''issuerAddress'', PStr ''0xI''), (''allowOnlySigned'', PBool False),
           (''credentialHashes'', PList [PStr ''c1'']), (''isActive'', PBool True)]"
    by (simp only: j sum.case)
  from 2 have 2: "get_credential ?cv ?jl ''c1'' = Inl (ValueError ''Expecting value'')"
    by (simp only: n sum.case)
  from p 1 c 2 show ?thesis by (intro conjI)
qed

text \<open>
  C10 (as stated). The claim says that a tuple shorter than the key list never makes the
  two readers fail. On the empty tuple the dictionary built by \<open>zip\<close> has no key at all,
  and reading the payload key raises \<open>KeyError\<close>.
\<close>

theorem decode_empty_tuple_raises:
  "get_health_passport (constant_view []) (json_loads_table [(''{}'', PDict [])]) ''0xP''
     = Inl (KeyError ''healthJson'') \<and>
   get_credential (constant_view []) (json_loads_table [(''{}'', PDict [])]) ''c1''
     = Inl (KeyError ''credentialJson'')"
  by (simp add: get_health_passport_def get_credential_def constant_view_def py_dict_def
      HEALTH_PASSPORT_STRUCT_def CREDENTIAL_STRUCT_def)

text \<open>
  C10 (amended). For a tuple that is not empty and has fewer elements than the key list
  (5 for passports, 4 for credentials), and whose first element parses as JSON, the two
  readers do not fail on the missing elements: the keys of the record are the first keys
  of the list, as many as the tuple has elements, and the values are the parsed payload
  followed by the other elements of the tuple; the trailing keys are absent.
\<close>

theorem decode_short_tuple:
  "(returnPassport a = Inr (v # vs) \<and> length (v # vs) < 5 \<and> json_loads v = Inr j \<longrightarrow>
      get_health_passport returnPassport json_loads a
        = Inr (zip (take (length (v # vs)) HEALTH_PASSPORT_STRUCT) (j # vs)) \<and>
      length (take (length (v # vs)) HEALTH_PASSPORT_STRUCT) = length (j # vs)) \<and>
   (returnCredential h = Inr (v' # vs') \<and> length (v' # vs') < 4 \<and> json_loads v' = Inr j' \<longrightarrow>
      get_credential returnCredential json_loads h
        = Inr (zip (take (length (v' # vs')) CREDENTIAL_STRUCT) (j' # vs')) \<and>
      length (take (length (v' # vs')) CREDENTIAL_STRUCT) = length (j' # vs'))"
proof (intro conjI impI)
  assume a: "returnPassport a = Inr (v # vs) \<and> length (v # vs) < 5 \<and> json_loads v = Inr j"
  then have "get_health_passport returnPassport json_loads a
      = Inr (zip HEALTH_PASSPORT_STRUCT (j # vs))"
    by (simp add: get_health_passport_nonempty)
  also have "zip HEALTH_PASSPORT_STRUCT (j # vs)
      = zip (take (length (v # vs)) HEALTH_PASSPORT_STRUCT) (j # vs)"
    using zip_truncate [of HEALTH_PASSPORT_STRUCT "j # vs"] by simp
  finally show "get_health_passport returnPassport json_loads a
      = Inr (zip (take (length (v # vs)) HEALTH_PASSPORT_STRUCT) (j # vs))" .
  from a show "length (take (length (v # vs)) HEALTH_PASSPORT_STRUCT) = length (j # vs)"
    by (simp add: HEALTH_PASSPORT_STRUCT_def)
next
  assume a: "returnCredential h = Inr (v' # vs') \<and> length (v' # vs') < 4
    \<and> json_loads v' = Inr j'"
  then have "get_credential returnCredential json_loads h
      = Inr (zip CREDENTIAL_STRUCT (j' # vs'))"
    by (simp add: get_credential_nonempty)
  also have "zip CREDENTIAL_STRUCT (j' # vs')
      = zip (take (length (v' # vs')) CREDENTIAL_STRUCT) (j' # vs')"
    using zip_truncate [of CREDENTIAL_STRUCT "j' # vs'"] by simp
  finally show "get_credential returnCredential json_loads h
      = Inr (zip (take (length (v' # vs')) CREDENTIAL_STRUCT) (j' # vs'))" .
  from a show "length (take (length (v' # vs')) CREDENTIAL_STRUCT) = length (j' # vs')"
    by (simp add: CREDENTIAL_STRUCT_def)
qed

theorem decode_short_tuple_witness:
  "constant_view [PStr ''{}'', PStr ''0xI''] ''0xP'' = Inr (PStr ''{}'' # [PStr ''0xI'']) \<and>
   length (PStr ''{}'' # [PStr ''0xI'']) < 5 \<and>
   json_loads_table [(''{}'', PDict [])] (PStr ''{}'') = Inr (PDict []) \<and>
   get_health_passport (constant_view [PStr ''{}'', PStr ''0xI''])
     (json_loads_table [(''{}'', PDict [])]) ''0xP''
     = Inr [(''healthJson'', PDict []), (''issuerAddress'', PStr ''0xI'')] \<and>
   constant_view [PStr ''{}'', PStr ''0xI''] ''c1'' = Inr (PStr ''{}'' # [PStr ''0xI'']) \<and>
   length (PStr ''{}'' # [PStr ''0xI'']) < 4 \<and>
   get_credential (constant_view [PStr ''{}'', PStr ''0xI''])
     (json_loads_table [(''{}'', PDict [])]) ''c1''
     = Inr [(''credentialJson'', PDict []), (''issuerAddress'', PStr ''0xI'')]"
proof -
  let ?view = "constant_view [PStr ''{}'', PStr ''0xI'']"
  let ?jl = "json_loads_table [(''{}'', PDict [])]"
  have p: "?view ''0xP'' = Inr (PStr ''{}'' # [PStr ''0xI''])"
    and c: "?view ''c1'' = Inr (PStr ''{}'' # [PStr ''0xI''])"
    by (simp_all add: constant_view_def)
  have j: "?jl (PStr ''{}'') = Inr (PDict [])"
    by (simp add: json_loads_table_def)
  have l: "length (PStr ''{}'' # [PStr ''0xI'']) < 5" "length (PStr ''{}'' # [PStr ''0xI'']) < 4"
    by simp_all
  note inst = decode_short_tuple
    [where returnPassport = ?view and a = "''0xP''" and json_loads = ?jl
       and v = "PStr ''{}''" and vs = "[PStr ''0xI'']" and j = "PDict []"
       and returnCredential = ?view and h = "''c1''"
       and v' = "PStr ''{}''" and vs' = "[PStr ''0xI'']" and j' = "PDict []"]
  from inst p j l(1) have 1: "get_health_passport ?view ?jl ''0xP''
      = Inr (zip (take (length (PStr ''{}'' # [PStr ''0xI''])) HEALTH_PASSPORT_STRUCT)
              (PDict [] # [PStr ''0xI'']))"
    by blast
  from inst c j l(2) have 2: "get_credential ?view ?jl ''c1''
      = Inr (zip (take (length (PStr ''{}'' # [PStr ''0xI''])) CREDENTIAL_STRUCT)
              (PDict [] # [PStr ''0xI'']))"
    by blast
  from 1 have 1: "get_health_passport ?view ?jl ''0xP''
      = Inr [(''healthJson'', PDict []), (''issuerAddress'', PStr ''0xI'')]"
    by (simp add: HEALTH_PASSPORT_STRUCT_def)
  from 2 have 2: "get_credential ?view ?jl ''c1''
      = Inr [(''credentialJson'', PDict []), (''issuerAddress'', PStr ''0xI'')]"
    by (simp add: CREDENTIAL_STRUCT_def)
  from p c j l 1 2 show ?thesis by blast
qed

subsection \<open>Fund recovery\<close>

lemma web3_fromWei_ok:
  "0 \<le> n \<Longrightarrow> n \<le> MAX_WEI \<Longrightarrow> web3_fromWei n = Inr (of_int n / 10 ^ 18)"
  by (simp add: web3_fromWei_def MIN_WEI_def)

lemma web3_toWei_ok:
  assumes "0 \<le> n" and "n \<le> MAX_WEI"
  shows "web3_toWei (of_int n / 10 ^ 18) = Inr n"
proof -
  have r: "(of_int n / 10 ^ 18 :: rat) * 10 ^ 18 = of_int n" by simp
  have z: "(of_int n / 10 ^ 18 = (0::rat)) = (n = 0)" by simp
  from assms show ?thesis
    unfolding web3_toWei_def Let_def r z by (simp add: MIN_WEI_def)
qed

lemma web3_units_simps:
  "fromWei web3_units = web3_fromWei"
  "toWei web3_units = web3_toWei"
  by (simp_all add: web3_units_def)

lemma send_account_balance_zero:
  "get_balance nd from_address = 0 \<Longrightarrow>
   send_account_balance u nd from_address to_address = ([Printed ''No eth to send!''], None)"
  by (simp add: send_account_balance_def)

lemma send_account_balance_covered:
  assumes "get_balance nd from_address = b" and "b \<noteq> 0" and "generateGasPrice nd = Some g"
    and "0 \<le> g" and "21000 * g \<le> b" and "b \<le> MAX_WEI"
  shows "send_account_balance web3_units nd from_address to_address =
    (let tx = \<lparr> tx_from = from_address, tx_to = to_address, tx_value = b - 21000 * g,
                 chainId = 3, nonce = getTransactionCount nd from_address,
                 gasPrice = (if g = 0 then None else Some g), gas = Some 21000 \<rparr>
     in case send_transaction nd tx of
          Inl e \<Rightarrow> ([Submit tx], Some e)
        | Inr tx_hash \<Rightarrow>
            ([Submit tx, PrintedSent (of_int (b - 21000 * g) / 10 ^ 18) from_address to_address,
              Printed (''Transaction URL: '' @ etherscan_url nd @ ''/tx/0x'' @ tx_hash)], None))"
proof -
  define d :: rat where "d = of_int (b - 21000 * g) / 10 ^ 18"
  from assms have n: "0 \<le> b - 21000 * g" "b - 21000 * g \<le> MAX_WEI" by simp_all
  have f: "web3_fromWei (b - 21000 * g) = Inr d"
    unfolding d_def by (rule web3_fromWei_ok [OF n])
  have t: "web3_toWei d = Inr (b - 21000 * g)"
    unfolding d_def by (rule web3_toWei_ok [OF n])
  have "send_account_balance web3_units nd from_address to_address =
      transfer_eth web3_units nd from_address to_address d (Some g) (Some 21000)"
    using assms(1-3) f by (simp add: send_account_balance_def web3_units_simps)
  also have "\<dots> =
    (let tx = \<lparr> tx_from = from_address, tx_to = to_address, tx_value = b - 21000 * g,
                 chainId = 3, nonce = getTransactionCount nd from_address,
                 gasPrice = (if g = 0 then None else Some g), gas = Some 21000 \<rparr>
     in case send_transaction nd tx of
          Inl e \<Rightarrow> ([Submit tx], Some e)
        | Inr tx_hash \<Rightarrow>
            ([Submit tx, PrintedSent d from_address to_address,
              Printed (''Transaction URL: '' @ etherscan_url nd @ ''/tx/0x'' @ tx_hash)], None))"
    using t by (simp add: transfer_eth_def web3_units_simps Let_def split: sum.splits)
  finally show ?thesis unfolding d_def .
qed

text \<open>
  C7 (as stated). The claim says that every balance other than zero is sent back less the
  fee. With a balance of \<open>10 ^ 13\<close> wei and a gas price of \<open>10 ^ 9\<close> wei the fee of
  \<open>21000\<close> gas is more than the balance: the difference is negative, the unit conversion
  rejects it, and the call raises without handing any transaction to the node.
\<close>

theorem send_account_balance_below_fee_raises:
  "send_account_balance web3_units (sample_node 10000000000000 1000000000) ''0xI'' ''0xO''
     = ([], Some (ValueError ''value must be between 1 and 2**256 - 1''))"
  by (simp add: send_account_balance_def sample_node_def web3_units_simps web3_fromWei_def
      MIN_WEI_def)

text \<open>
  C7 (amended). \<open>send_account_balance\<close> reads the balance of the source account. If it is
  zero, the call prints a line and returns, with no transfer and no error. If it is not
  zero and covers the fee of \<open>21000\<close> gas at the generated gas price (a price that is
  not negative, a balance of at most \<open>2 ^ 256 - 1\<close> wei), the call hands the node exactly
  one transaction, from the source to the destination, whose value is the balance minus
  \<open>21000\<close> times the gas price, with gas \<open>21000\<close> at that price (the price is left
  out of the transaction when it is zero).
\<close>

theorem send_account_balance_transfers_remainder:
  "(get_balance nd from_address = 0 \<longrightarrow>
      send_account_balance web3_units nd from_address to_address
        = ([Printed ''No eth to send!''], None)) \<and>
   (get_balance nd from_address = b \<and> b \<noteq> 0 \<and> generateGasPrice nd = Some g \<and>
    0 \<le> g \<and> 21000 * g \<le> b \<and> b \<le> MAX_WEI \<longrightarrow>
      send_account_balance web3_units nd from_address to_address =
        (let tx = \<lparr> tx_from = from_address, tx_to = to_address, tx_value = b - 21000 * g,
                     chainId = 3, nonce = getTransactionCount nd from_address,
                     gasPrice = (if g = 0 then None else Some g), gas = Some 21000 \<rparr>
         in case send_transaction nd tx of
              Inl e \<Rightarrow> ([Submit tx], Some e)
            | Inr tx_hash \<Rightarrow>
                ([Submit tx,
                  PrintedSent (of_int (b - 21000 * g) / 10 ^ 18) from_address to_address,
                  Printed (''Transaction URL: '' @ etherscan_url nd @ ''/tx/0x'' @ tx_hash)],
                 None)))"
  using send_account_balance_zero [of nd from_address web3_units to_address]
    send_account_balance_covered [of nd from_address b g to_address]
  by blast

theorem send_account_balance_transfers_remainder_witness:
  "get_balance (sample_node 0 1000000000) ''0xI'' = 0 \<and>
   send_account_balance web3_units (sample_node 0 1000000000) ''0xI'' ''0xO''
     = ([Printed ''No eth to send!''], None) \<and>
   get_balance (sample_node 50000000000000000 1000000000) ''0xI'' = 50000000000000000 \<and>
   (50000000000000000::int) \<noteq> 0 \<and>
   generateGasPrice (sample_node 50000000000000000 1000000000) = Some 1000000000 \<and>
   (0::int) \<le> 1000000000 \<and> 21000 * 1000000000 \<le> (50000000000000000::int) \<and>
   50000000000000000 \<le> MAX_WEI \<and>
   fst (send_account_balance web3_units (sample_node 50000000000000000 1000000000)
          ''0xI'' ''0xO'') =
     [Submit \<lparr> tx_from = ''0xI'', tx_to = ''0xO'', tx_value = 49979000000000000, chainId = 3,
               nonce = 0, gasPrice = Some 1000000000, gas = Some 21000 \<rparr>,
      PrintedSent (49979 / 1000000) ''0xI'' ''0xO'',
      Printed ''Transaction URL: https://ropsten.etherscan.io/tx/0xab'']"
proof -
  let ?z = "sample_node 0 1000000000"
  let ?n = "sample_node 50000000000000000 1000000000"
  have z: "get_balance ?z ''0xI'' = 0" by (simp add: sample_node_def)
  have b: "get_balance ?n ''0xI'' = 50000000000000000"
    and g: "generateGasPrice ?n = Some 1000000000"
    by (simp_all add: sample_node_def)
  have m: "50000000000000000 \<le> MAX_WEI" by (simp add: MAX_WEI_def)
  from z send_account_balance_transfers_remainder [of ?z "''0xI''" "''0xO''" 0 0]
  have 1: "send_account_balance web3_units ?z ''0xI'' ''0xO''
      = ([Printed ''No eth to send!''], None)"
    by blast
  from b g m send_account_balance_transfers_remainder
    [of ?n "''0xI''" "''0xO''" 50000000000000000 1000000000]
  have 2: "send_account_balance web3_units ?n ''0xI'' ''0xO'' =
        (let tx = \<lparr> tx_from = ''0xI'', tx_to = ''0xO'',
                     tx_value = 50000000000000000 - 21000 * 1000000000,
                     chainId = 3, nonce = getTransactionCount ?n ''0xI'',
                     gasPrice = (if (1000000000::int) = 0 then None else Some 1000000000),
                     gas = Some 21000 \<rparr>
         in case send_transaction ?n tx of
              Inl e \<Rightarrow> ([Submit tx], Some e)
            | Inr tx_hash \<Rightarrow>
                ([Submit tx,
                  PrintedSent (of_int (50000000000000000 - 21000 * 1000000000) / 10 ^ 18)
                    ''0xI'' ''0xO'',
                  Printed (''Transaction URL: '' @ etherscan_url ?n @ ''/tx/0x'' @ tx_hash)],
                 None))"
    by simp
  have 3: "fst (send_account_balance web3_units ?n ''0xI'' ''0xO'') =
     [Submit \<lparr> tx_from = ''0xI'', tx_to = ''0xO'', tx_value = 49979000000000000, chainId = 3,
               nonce = 0, gasPrice = Some 1000000000, gas = Some 21000 \<rparr>,
      PrintedSent (49979 / 1000000) ''0xI'' ''0xO'',
      Printed ''Transaction URL: https://ropsten.etherscan.io/tx/0xab'']"
    unfolding 2 by (simp add: sample_node_def)
  from z 1 b g m 3 show ?thesis by simp
qed

subsection \<open>The script: seeding and recovery\<close>

text \<open>
  C6 (as stated). The claim says that a run that advanced funds to the temporary issuer
  account always invokes the recovery once, on every failure path. Two runs with an
  empty issuer key, hence with the seeding transfer performed: in the first the body of
  the \<open>try\<close> is left by \<open>KeyboardInterrupt\<close>, which \<open>except Exception\<close> does not
  handle; in the second the passport key is rejected before the \<open>try\<close> is entered. Both
  end without the recovery call.
\<close>

theorem seeded_run_without_recovery:
  "main \<lparr> ISSUER_PRIVATE_KEY = [], PASSPORT_PRIVATE_KEY = [], setup_raises = None,
          issuer_account_raises = None, seed_raises = None, passport_account_raises = None,
          body_raises = Some KeyboardInterrupt, recover_raises = None \<rparr>
     = ([Seed, Body], Some KeyboardInterrupt) \<and>
   main \<lparr> ISSUER_PRIVATE_KEY = [], PASSPORT_PRIVATE_KEY = ''zz'', setup_raises = None,
          issuer_account_raises = None, seed_raises = None,
          passport_account_raises = Some (ValueError ''Non-hexadecimal digit found''),
          body_raises = None, recover_raises = None \<rparr>
     = ([Seed], Some (ValueError ''Non-hexadecimal digit found''))"
  by (simp add: main_def try_body_def)

text \<open>
  C6 (amended). In every run that enters the body of the \<open>try\<close>, and whose body returns
  or raises an instance of \<open>Exception\<close>, the seeding transfer was performed if and only
  if no issuer key was configured, and the recovery is invoked after the body, exactly
  once if the seeding transfer was performed and never otherwise.
\<close>

theorem recovery_iff_seeded:
  assumes "Body \<in> set (fst (main r))"
    and "\<forall>e. body_raises r = Some e \<longrightarrow> is_Exception e"
  shows "(Seed \<in> set (fst (main r)) \<longleftrightarrow> ISSUER_PRIVATE_KEY r = []) \<and>
    filter (\<lambda>e. e = Body \<or> e = Recover) (fst (main r)) =
      (if Seed \<in> set (fst (main r)) then [Body, Recover] else [Body])"
  using assms
  by (auto simp: main_def try_body_def finish_def split: option.splits if_splits)

theorem recovery_iff_seeded_witness:
  "Body \<in> set (fst (main
       \<lparr> ISSUER_PRIVATE_KEY = [], PASSPORT_PRIVATE_KEY = [], setup_raises = None,
         issuer_account_raises = None, seed_raises = None, passport_account_raises = None,
         body_raises = Some (NameError ''allow_only_signed''), recover_raises = None \<rparr>)) \<and>
   is_Exception (NameError ''allow_only_signed'') \<and>
   fst (main
       \<lparr> ISSUER_PRIVATE_KEY = [], PASSPORT_PRIVATE_KEY = [], setup_raises = None,
         issuer_account_raises = None, seed_raises = None, passport_account_raises = None,
         body_raises = Some (NameError ''allow_only_signed''), recover_raises = None \<rparr>)
     = [Seed, Body, Caught (NameError ''allow_only_signed''), Recover, Done] \<and>
   filter (\<lambda>e. e = Body \<or> e = Recover) (fst (main
       \<lparr> ISSUER_PRIVATE_KEY = [], PASSPORT_PRIVATE_KEY = [], setup_raises = None,
         issuer_account_raises = None, seed_raises = None, passport_account_raises = None,
         body_raises = Some (NameError ''allow_only_signed''), recover_raises = None \<rparr>))
     = [Body, Recover] \<and>
   Body \<in> set (fst (main
       \<lparr> ISSUER_PRIVATE_KEY =
           ''4c0883a69102937d6231471b5dbb6204fe5129617082792ae468d01a3f362318'',
         PASSPORT_PRIVATE_KEY = [], setup_raises = None,
         issuer_account_raises = None, seed_raises = None, passport_account_raises = None,
         body_raises = Some (NameError ''allow_only_signed''), recover_raises = None \<rparr>)) \<and>
   filter (\<lambda>e. e = Body \<or> e = Recover) (fst (main
       \<lparr> ISSUER_PRIVATE_KEY =
           ''4c0883a69102937d6231471b5dbb6204fe5129617082792ae468d01a3f362318'',
         PASSPORT_PRIVATE_KEY = [], setup_raises = None,
         issuer_account_raises = None, seed_raises = None, passport_account_raises = None,
         body_raises = Some (NameError ''allow_only_signed''), recover_raises = None \<rparr>))
     = [Body]"
proof -
  let ?seeded = "\<lparr> ISSUER_PRIVATE_KEY = [], PASSPORT_PRIVATE_KEY = [], setup_raises = None,
    issuer_account_raises = None, seed_raises = None, passport_account_raises = None,
    body_raises = Some (NameError ''allow_only_signed''), recover_raises = None \<rparr>"
  let ?keyed = "\<lparr> ISSUER_PRIVATE_KEY =
           ''4c0883a69102937d6231471b5dbb6204fe5129617082792ae468d01a3f362318'',
    PASSPORT_PRIVATE_KEY = [],
    setup_raises = None, issuer_account_raises = None, seed_raises = None,
    passport_account_raises = None, body_raises = Some (NameError ''allow_only_signed''),
    recover_raises = None \<rparr>"
  have t1: "fst (main ?seeded)
      = [Seed, Body, Caught (NameError ''allow_only_signed''), Recover, Done]"
    by (simp add: main_def try_body_def finish_def)
  have t2: "fst (main ?keyed) = [Body, Caught (NameError ''allow_only_signed''), Done]"
    by (simp add: main_def try_body_def finish_def)
  have b1: "Body \<in> set (fst (main ?seeded))" unfolding t1 by simp
  have b2: "Body \<in> set (fst (main ?keyed))" unfolding t2 by simp
  have e1: "\<forall>e. body_raises ?seeded = Some e \<longrightarrow> is_Exception e" by simp
  have e2: "\<forall>e. body_raises ?keyed = Some e \<longrightarrow> is_Exception e" by simp
  have s1: "Seed \<in> set (fst (main ?seeded))" unfolding t1 by simp
  have s2: "Seed \<notin> set (fst (main ?keyed))" unfolding t2 by simp
  from recovery_iff_seeded [OF b1 e1] s1
  have 1: "filter (\<lambda>e. e = Body \<or> e = Recover) (fst (main ?seeded)) = [Body, Recover]"
    by (simp only: if_True)
  from recovery_iff_seeded [OF b2 e2] s2
  have 2: "filter (\<lambda>e. e = Body \<or> e = Recover) (fst (main ?keyed)) = [Body]"
    by (simp only: if_False)
  have x: "is_Exception (NameError ''allow_only_signed'')" by simp
  from b1 x t1 1 b2 2 show ?thesis by (intro conjI)
qed

text \<open>
  C9. With an empty signed map the loop body never runs: \<open>validate_data_dict\<close> returns
  \<open>True\<close> and prints nothing, whatever the plaintext map, the expected signer and the
  signing library are.
\<close>

theorem validate_data_dict_empty_signed:
  "validate_data_dict lib plaintext_dict [] signer_address = ([], Inr True)"
  by simp

end
